theory Spec2Isabelle
  imports Complex_Main "HOL-Library.Word"
begin

section \<open>Python values, errors and the native boundary\<close>

text \<open>
  The library is a thin host-side layer over a native engine. Every function of the
  engine is reached through the module \<open>backend\<close>; the engine itself is not part of the
  repository, so its functions are parameters of the model. What the host code does
  around them (translating identifiers, caching, choosing defaults, encoding strings,
  the order of its steps) is what the definitions below embed.

  A vertex or an edge is named by the application with any hashable Python value; the
  engine names it with an integer. Both live in the same Python value space, so one
  type holds them: \<open>PyInt k\<close> is the Python integer \<open>k\<close>, \<open>PyStr s\<close> a string.
\<close>

datatype pyval = PyInt int | PyStr string

datatype error =
    KeyError
  | UnknownVertex
  | CorruptMapping
  | AttributeError
  | NotImplementedError
  | UnicodeEncodeError
  | ValueError
  | NativeEngineError

type_synonym handle = nat

text \<open>
  The property graph as far as \<open>_pg_paths.py\<close> reads it: the dictionary
  \<open>_vertex_id_to_hash\<close> (used by \<open>_cache\<close>) and the two dictionaries the helpers of
  \<open>_pg.py\<close> and \<open>_pg_wrappers.py\<close> consult.
\<close>

record graph =
  vertex_hash_to_id :: "pyval \<rightharpoonup> int"
  vertex_id_to_hash :: "int \<rightharpoonup> pyval"
  edge_id_to_hash :: "int \<rightharpoonup> pyval"

text \<open>
  The native functions called by \<open>_pg_paths.py\<close>. Each may raise (\<open>Inl\<close>). The edge
  iterator handle returned by \<open>jgrapht_handles_get_graphpath\<close> is represented by the
  sequence of raw edge identifiers it yields.
\<close>

record 'w backend =
  jgrapht_handles_get_graphpath :: "handle \<Rightarrow> error + ('w \<times> int \<times> int \<times> int list)"
  jgrapht_sp_singlesource_get_path_to_vertex :: "handle \<Rightarrow> int \<Rightarrow> error + handle option"
  jgrapht_sp_allpairs_get_path_between_vertices ::
    "handle \<Rightarrow> int \<Rightarrow> int \<Rightarrow> error + handle option"
  jgrapht_sp_allpairs_get_singlesource_from_vertex :: "handle \<Rightarrow> int \<Rightarrow> error + handle"

text \<open>The native calls a run issues are logged, oldest first.\<close>

datatype native_call =
    Handles_get_graphpath handle
  | Sp_singlesource_get_path_to_vertex handle int
  | Sp_allpairs_get_path_between_vertices handle int int
  | Sp_allpairs_get_singlesource_from_vertex handle int

section \<open>Identifier translation\<close>

text \<open>
  Modelled from the spec: \<open>vertex_pg_to_g\<close> of \<open>_internals/_pg.py\<close>, which is not among
  the sources. The spec's \<open>encodeVertex(appId) -> int\<close> returns the existing mapping of
  the application identifier and fails with \<open>UnknownVertex\<close> when there is none.
\<close>

definition vertex_pg_to_g :: "graph \<Rightarrow> pyval \<Rightarrow> error + int" where
  "vertex_pg_to_g g v =
     (case vertex_hash_to_id g v of None \<Rightarrow> Inl UnknownVertex | Some k \<Rightarrow> Inr k)"

text \<open>
  Modelled from the spec: \<open>list(_PropertyGraphEdgeIterator(eit, graph))\<close>, the iterator
  class of \<open>_internals/_pg_wrappers.py\<close>, which is not among the sources. The spec's
  Native Iterator Adapter decodes each raw element through the registry of the graph,
  in the order the native iterator yields them; a raw identifier without a reverse
  entry stops the decoding with the spec's \<open>CorruptMapping\<close>.
\<close>

fun edge_iterator_list :: "graph \<Rightarrow> int list \<Rightarrow> error + pyval list" where
  "edge_iterator_list g [] = Inr []"
| "edge_iterator_list g (e # eit) =
     (case edge_id_to_hash g e of
        None \<Rightarrow> Inl CorruptMapping
      | Some h \<Rightarrow>
          (case edge_iterator_list g eit of
             Inl err \<Rightarrow> Inl err
           | Inr hs \<Rightarrow> Inr (h # hs)))"

section \<open>\<open>_PropertyGraphGraphPath\<close>\<close>

text \<open>
  The object's fields. \<open>_graph\<close> is a reference to the graph object; the graph it
  refers to is passed to each operation as \<open>g\<close>. A field that holds Python's \<open>None\<close>
  is \<open>None\<close> here.
\<close>

record 'w graph_path =
  gp_handle :: handle
  gp_weight :: "'w option"
  gp_start_vertex :: "pyval option"
  gp_end_vertex :: "pyval option"
  gp_edges :: "pyval list option"

text \<open>\<open>__init__\<close>: nothing is decoded yet.\<close>

definition new_graph_path :: "handle \<Rightarrow> 'w graph_path" where
  "new_graph_path h =
     \<lparr>gp_handle = h, gp_weight = None, gp_start_vertex = None,
      gp_end_vertex = None, gp_edges = None\<rparr>"

text \<open>The state an operation on a path object runs in: the object and the call log.\<close>

record 'w world =
  path :: "'w graph_path"
  calls :: "native_call list"

text \<open>
  \<open>_cache\<close>. The assignments happen one after the other, so an exception leaves the
  fields assigned before it in place; \<open>_edges\<close> is assigned last.
\<close>

definition cache :: "'w backend \<Rightarrow> graph \<Rightarrow> 'w world \<Rightarrow> (error + unit) \<times> 'w world" where
  "cache be g w =
     (if gp_edges (path w) \<noteq> None then (Inr (), w)
      else
        let w1 = w\<lparr>calls := calls w @ [Handles_get_graphpath (gp_handle (path w))]\<rparr> in
        case jgrapht_handles_get_graphpath be (gp_handle (path w)) of
          Inl err \<Rightarrow> (Inl err, w1)
        | Inr (weight, start_vertex, end_vertex, eit) \<Rightarrow>
            let w2 = w1\<lparr>path := (path w1)\<lparr>gp_weight := Some weight\<rparr>\<rparr> in
            (case vertex_id_to_hash g start_vertex of
               None \<Rightarrow> (Inl KeyError, w2)
             | Some sv \<Rightarrow>
                 let w3 = w2\<lparr>path := (path w2)\<lparr>gp_start_vertex := Some sv\<rparr>\<rparr> in
                 (case vertex_id_to_hash g end_vertex of
                    None \<Rightarrow> (Inl KeyError, w3)
                  | Some ev \<Rightarrow>
                      let w4 = w3\<lparr>path := (path w3)\<lparr>gp_end_vertex := Some ev\<rparr>\<rparr> in
                      (case edge_iterator_list g eit of
                         Inl err \<Rightarrow> (Inl err, w4)
                       | Inr es \<Rightarrow>
                           (Inr (), w4\<lparr>path := (path w4)\<lparr>gp_edges := Some es\<rparr>\<rparr>)))))"

text \<open>The four properties: \<open>self._cache()\<close>, then the field.\<close>

definition weight :: "'w backend \<Rightarrow> graph \<Rightarrow> 'w world \<Rightarrow> (error + 'w option) \<times> 'w world" where
  "weight be g w =
     (case cache be g w of
        (Inl err, w') \<Rightarrow> (Inl err, w')
      | (Inr _, w') \<Rightarrow> (Inr (gp_weight (path w')), w'))"

definition start_vertex ::
  "'w backend \<Rightarrow> graph \<Rightarrow> 'w world \<Rightarrow> (error + pyval option) \<times> 'w world" where
  "start_vertex be g w =
     (case cache be g w of
        (Inl err, w') \<Rightarrow> (Inl err, w')
      | (Inr _, w') \<Rightarrow> (Inr (gp_start_vertex (path w')), w'))"

definition end_vertex ::
  "'w backend \<Rightarrow> graph \<Rightarrow> 'w world \<Rightarrow> (error + pyval option) \<times> 'w world" where
  "end_vertex be g w =
     (case cache be g w of
        (Inl err, w') \<Rightarrow> (Inl err, w')
      | (Inr _, w') \<Rightarrow> (Inr (gp_end_vertex (path w')), w'))"

definition edges ::
  "'w backend \<Rightarrow> graph \<Rightarrow> 'w world \<Rightarrow> (error + pyval list option) \<times> 'w world" where
  "edges be g w =
     (case cache be g w of
        (Inl err, w') \<Rightarrow> (Inl err, w')
      | (Inr _, w') \<Rightarrow> (Inr (gp_edges (path w')), w'))"

text \<open>
  A caller reads fields one after the other. Which field, and what a read gave, are
  data here so that a sequence of reads can be talked about as a whole; a read that
  raised is recorded as \<open>Inl\<close> and the caller goes on to the next read. The graph
  object may have been changed between two reads, so each read comes with the graph as
  it is at that moment.
\<close>

datatype path_field = Weight | Start_vertex | End_vertex | Edges

datatype 'w field_value =
    Weight_value "'w option"
  | Vertex_value "pyval option"
  | Edges_value "pyval list option"

definition read_field ::
  "'w backend \<Rightarrow> graph \<Rightarrow> path_field \<Rightarrow> 'w world \<Rightarrow> (error + 'w field_value) \<times> 'w world" where
  "read_field be g f w =
     (case f of
        Weight \<Rightarrow> apfst (map_sum id Weight_value) (weight be g w)
      | Start_vertex \<Rightarrow> apfst (map_sum id Vertex_value) (start_vertex be g w)
      | End_vertex \<Rightarrow> apfst (map_sum id Vertex_value) (end_vertex be g w)
      | Edges \<Rightarrow> apfst (map_sum id Edges_value) (edges be g w))"

fun read_fields ::
  "'w backend \<Rightarrow> (path_field \<times> graph) list \<Rightarrow> 'w world \<Rightarrow>
     (error + 'w field_value) list \<times> 'w world"
  where
  "read_fields be [] w = ([], w)"
| "read_fields be ((f, g) # reads) w =
     (case read_field be g f w of
        (r, w') \<Rightarrow> (case read_fields be reads w' of (rs, w'') \<Rightarrow> (r # rs, w'')))"

definition fetch_count :: "native_call list \<Rightarrow> nat" where
  "fetch_count cs = length (filter (\<lambda>c. case c of Handles_get_graphpath _ \<Rightarrow> True | _ \<Rightarrow> False) cs)"

definition stored_value :: "'w graph_path \<Rightarrow> path_field \<Rightarrow> 'w field_value" where
  "stored_value p f =
     (case f of
        Weight \<Rightarrow> Weight_value (gp_weight p)
      | Start_vertex \<Rightarrow> Vertex_value (gp_start_vertex p)
      | End_vertex \<Rightarrow> Vertex_value (gp_end_vertex p)
      | Edges \<Rightarrow> Edges_value (gp_edges p))"

subsection \<open>Iterating over a path\<close>

text \<open>
  Python's list iterator: a position in a list. \<open>list_next\<close> is \<open>__next__\<close>, with
  \<open>None\<close> for \<open>StopIteration\<close>; \<open>drain\<close> is what a \<open>for\<close> loop (or \<open>list(...)\<close>) collects
  from an iterator.
\<close>

record 'a list_iterator =
  it_seq :: "'a list"
  it_index :: nat

definition list_iter :: "'a list \<Rightarrow> 'a list_iterator" where
  "list_iter xs = \<lparr>it_seq = xs, it_index = 0\<rparr>"

definition list_next :: "'a list_iterator \<Rightarrow> ('a \<times> 'a list_iterator) option" where
  "list_next it =
     (if it_index it < length (it_seq it)
      then Some (it_seq it ! it_index it, it\<lparr>it_index := Suc (it_index it)\<rparr>)
      else None)"

function drain :: "'a list_iterator \<Rightarrow> 'a list" where
  "drain it = (case list_next it of None \<Rightarrow> [] | Some (x, it') \<Rightarrow> x # drain it')"
  by pat_completeness auto
termination
  by (relation "measure (\<lambda>it. length (it_seq it) - it_index it)")
     (auto simp: list_next_def split: if_splits)

declare drain.simps [simp del]

text \<open>
  \<open>__iter__\<close>: \<open>self._cache()\<close>, then \<open>self._edges.__iter__()\<close>. Were \<open>_edges\<close> still
  \<open>None\<close> there, the attribute lookup on \<open>None\<close> would raise.
\<close>

definition path_iter ::
  "'w backend \<Rightarrow> graph \<Rightarrow> 'w world \<Rightarrow> (error + pyval list_iterator) \<times> 'w world" where
  "path_iter be g w =
     (case cache be g w of
        (Inl err, w') \<Rightarrow> (Inl err, w')
      | (Inr _, w') \<Rightarrow>
          (case gp_edges (path w') of
             None \<Rightarrow> (Inl AttributeError, w')
           | Some es \<Rightarrow> (Inr (list_iter es), w')))"

text \<open>\<open>for e in p\<close>: the elements direct iteration yields, in order.\<close>

definition iterate_path ::
  "'w backend \<Rightarrow> graph \<Rightarrow> 'w world \<Rightarrow> (error + pyval list) \<times> 'w world" where
  "iterate_path be g w =
     (case path_iter be g w of
        (Inl err, w') \<Rightarrow> (Inl err, w')
      | (Inr it, w') \<Rightarrow> (Inr (drain it), w'))"

section \<open>\<open>_PropertyGraphSingleSourcePaths\<close> and \<open>_PropertyGraphAllPairsPaths\<close>\<close>

text \<open>
  These objects keep no cache, so an operation returns its result together with the
  native calls it issued.
\<close>

record single_source_paths =
  ssp_handle :: handle
  ssp_source_vertex :: pyval

definition singlesource_get_path ::
  "'w backend \<Rightarrow> graph \<Rightarrow> single_source_paths \<Rightarrow> pyval \<Rightarrow>
     (error + 'w graph_path option) \<times> native_call list" where
  "singlesource_get_path be g s target_vertex =
     (case vertex_pg_to_g g target_vertex of
        Inl err \<Rightarrow> (Inl err, [])
      | Inr target_vertex' \<Rightarrow>
          (case jgrapht_sp_singlesource_get_path_to_vertex be (ssp_handle s) target_vertex' of
             Inl err \<Rightarrow>
               (Inl err, [Sp_singlesource_get_path_to_vertex (ssp_handle s) target_vertex'])
           | Inr gp \<Rightarrow>
               (Inr (case gp of None \<Rightarrow> None | Some h \<Rightarrow> Some (new_graph_path h)),
                [Sp_singlesource_get_path_to_vertex (ssp_handle s) target_vertex'])))"

record all_pairs_paths =
  app_handle :: handle

definition allpairs_get_path ::
  "'w backend \<Rightarrow> graph \<Rightarrow> all_pairs_paths \<Rightarrow> pyval \<Rightarrow> pyval \<Rightarrow>
     (error + 'w graph_path option) \<times> native_call list" where
  "allpairs_get_path be g a source_vertex target_vertex =
     (case vertex_pg_to_g g source_vertex of
        Inl err \<Rightarrow> (Inl err, [])
      | Inr source_vertex' \<Rightarrow>
          (case vertex_pg_to_g g target_vertex of
             Inl err \<Rightarrow> (Inl err, [])
           | Inr target_vertex' \<Rightarrow>
               (case jgrapht_sp_allpairs_get_path_between_vertices be (app_handle a)
                       source_vertex' target_vertex' of
                  Inl err \<Rightarrow>
                    (Inl err,
                     [Sp_allpairs_get_path_between_vertices (app_handle a)
                        source_vertex' target_vertex'])
                | Inr gp \<Rightarrow>
                    (Inr (case gp of None \<Rightarrow> None | Some h \<Rightarrow> Some (new_graph_path h)),
                     [Sp_allpairs_get_path_between_vertices (app_handle a)
                        source_vertex' target_vertex']))))"

text \<open>
  \<open>get_paths_from\<close> rebinds its parameter \<open>source_vertex\<close> to the translated, internal
  identifier, and the constructor of the result is given that rebound variable.
\<close>

definition allpairs_get_paths_from ::
  "'w backend \<Rightarrow> graph \<Rightarrow> all_pairs_paths \<Rightarrow> pyval \<Rightarrow>
     (error + single_source_paths) \<times> native_call list" where
  "allpairs_get_paths_from be g a source_vertex =
     (case vertex_pg_to_g g source_vertex of
        Inl err \<Rightarrow> (Inl err, [])
      | Inr source_vertex' \<Rightarrow>
          (case jgrapht_sp_allpairs_get_singlesource_from_vertex be (app_handle a)
                  source_vertex' of
             Inl err \<Rightarrow>
               (Inl err,
                [Sp_allpairs_get_singlesource_from_vertex (app_handle a) source_vertex'])
           | Inr singlesource \<Rightarrow>
               (Inr \<lparr>ssp_handle = singlesource, ssp_source_vertex = PyInt source_vertex'\<rparr>,
                [Sp_allpairs_get_singlesource_from_vertex (app_handle a) source_vertex'])))"

text \<open>The property \<open>source_vertex\<close> of \<open>_PropertyGraphSingleSourcePaths\<close>.\<close>

definition source_vertex :: "single_source_paths \<Rightarrow> pyval" where
  "source_vertex s = ssp_source_vertex s"

section \<open>Generators\<close>

text \<open>
  \<open>generators.py\<close>. Every generator reads \<open>graph.handle\<close> and makes one call into the
  engine; \<open>graph_handle\<close> is that handle. The engine's answer to a call (return, or
  raise) is the parameter \<open>be\<close>. A generator returns its outcome and the native calls it
  issued. The probability \<open>p\<close> and the clock are Python floats; each is the real number
  it denotes.
\<close>

datatype generate_call =
    Generate_barabasi_albert handle int int int int
  | Generate_barabasi_albert_forest handle int int int
  | Generate_complete handle int
  | Generate_bipartite_complete handle int int
  | Generate_empty handle int
  | Generate_gnm_random handle int int bool bool int
  | Generate_gnp_random handle int real bool int
  | Generate_ring handle int
  | Generate_scalefree handle int int
  | Generate_watts_strogatz handle int int real bool int
  | Generate_kleinberg_smallworld handle int int int int int

type_synonym generate_backend = "generate_call \<Rightarrow> error + unit"

text \<open>\<open>int(x)\<close> on a float: the fractional part is dropped, towards zero.\<close>

definition py_int :: "real \<Rightarrow> int" where
  "py_int x = (if x < 0 then \<lceil>x\<rceil> else \<lfloor>x\<rfloor>)"

definition barabasi_albert_graph ::
  "generate_backend \<Rightarrow> real \<Rightarrow> handle \<Rightarrow> int \<Rightarrow> int \<Rightarrow> int \<Rightarrow> int option \<Rightarrow>
     (error + unit) \<times> generate_call list" where
  "barabasi_albert_graph be now graph_handle m0 m n seed =
     (let seed' = (case seed of None \<Rightarrow> py_int now | Some s \<Rightarrow> s) in
      (be (Generate_barabasi_albert graph_handle m0 m n seed'),
       [Generate_barabasi_albert graph_handle m0 m n seed']))"

definition barabasi_albert_forest ::
  "generate_backend \<Rightarrow> real \<Rightarrow> handle \<Rightarrow> int \<Rightarrow> int \<Rightarrow> int option \<Rightarrow>
     (error + unit) \<times> generate_call list" where
  "barabasi_albert_forest be now graph_handle t n seed =
     (let seed' = (case seed of None \<Rightarrow> py_int now | Some s \<Rightarrow> s) in
      (be (Generate_barabasi_albert_forest graph_handle t n seed'),
       [Generate_barabasi_albert_forest graph_handle t n seed']))"

definition complete_graph ::
  "generate_backend \<Rightarrow> handle \<Rightarrow> int \<Rightarrow> (error + unit) \<times> generate_call list" where
  "complete_graph be graph_handle n =
     (be (Generate_complete graph_handle n), [Generate_complete graph_handle n])"

definition complete_bipartite_graph ::
  "generate_backend \<Rightarrow> handle \<Rightarrow> int \<Rightarrow> int \<Rightarrow> (error + unit) \<times> generate_call list" where
  "complete_bipartite_graph be graph_handle a b =
     (be (Generate_bipartite_complete graph_handle a b),
      [Generate_bipartite_complete graph_handle a b])"

definition empty_graph ::
  "generate_backend \<Rightarrow> handle \<Rightarrow> int \<Rightarrow> (error + unit) \<times> generate_call list" where
  "empty_graph be graph_handle n =
     (be (Generate_empty graph_handle n), [Generate_empty graph_handle n])"

definition gnm_random_graph ::
  "generate_backend \<Rightarrow> real \<Rightarrow> handle \<Rightarrow> int \<Rightarrow> int \<Rightarrow> bool \<Rightarrow> bool \<Rightarrow> int option \<Rightarrow>
     (error + unit) \<times> generate_call list" where
  "gnm_random_graph be now graph_handle n m loops multiple_edges seed =
     (let seed' = (case seed of None \<Rightarrow> py_int now | Some s \<Rightarrow> s) in
      (be (Generate_gnm_random graph_handle n m loops multiple_edges seed'),
       [Generate_gnm_random graph_handle n m loops multiple_edges seed']))"

definition gnp_random_graph ::
  "generate_backend \<Rightarrow> real \<Rightarrow> handle \<Rightarrow> int \<Rightarrow> real \<Rightarrow> bool \<Rightarrow> int option \<Rightarrow>
     (error + unit) \<times> generate_call list" where
  "gnp_random_graph be now graph_handle n p loops seed =
     (let seed' = (case seed of None \<Rightarrow> py_int now | Some s \<Rightarrow> s) in
      (be (Generate_gnp_random graph_handle n p loops seed'),
       [Generate_gnp_random graph_handle n p loops seed']))"

definition ring_graph ::
  "generate_backend \<Rightarrow> handle \<Rightarrow> int \<Rightarrow> (error + unit) \<times> generate_call list" where
  "ring_graph be graph_handle n =
     (be (Generate_ring graph_handle n), [Generate_ring graph_handle n])"

definition scalefree_graph ::
  "generate_backend \<Rightarrow> real \<Rightarrow> handle \<Rightarrow> int \<Rightarrow> int option \<Rightarrow>
     (error + unit) \<times> generate_call list" where
  "scalefree_graph be now graph_handle n seed =
     (let seed' = (case seed of None \<Rightarrow> py_int now | Some s \<Rightarrow> s) in
      (be (Generate_scalefree graph_handle n seed'),
       [Generate_scalefree graph_handle n seed']))"

definition watts_strogatz_graph ::
  "generate_backend \<Rightarrow> real \<Rightarrow> handle \<Rightarrow> int \<Rightarrow> int \<Rightarrow> real \<Rightarrow> bool \<Rightarrow> int option \<Rightarrow>
     (error + unit) \<times> generate_call list" where
  "watts_strogatz_graph be now graph_handle n k p add_instead_of_rewire seed =
     (let seed' = (case seed of None \<Rightarrow> py_int now | Some s \<Rightarrow> s) in
      (be (Generate_watts_strogatz graph_handle n k p add_instead_of_rewire seed'),
       [Generate_watts_strogatz graph_handle n k p add_instead_of_rewire seed']))"

definition kleinberg_smallworld_graph ::
  "generate_backend \<Rightarrow> real \<Rightarrow> handle \<Rightarrow> int \<Rightarrow> int \<Rightarrow> int \<Rightarrow> int \<Rightarrow> int option \<Rightarrow>
     (error + unit) \<times> generate_call list" where
  "kleinberg_smallworld_graph be now graph_handle n p q r seed =
     (let seed' = (case seed of None \<Rightarrow> py_int now | Some s \<Rightarrow> s) in
      (be (Generate_kleinberg_smallworld graph_handle n p q r seed'),
       [Generate_kleinberg_smallworld graph_handle n p q r seed']))"

section \<open>Edge list importers\<close>

text \<open>
  \<open>io/edgelist.py\<close>. A Python string is a sequence of Unicode code points (numbers
  below \<open>0x110000\<close>); a byte is an 8-bit word. \<open>bytearray(s, encoding="utf-8")\<close> encodes
  the code points one after the other and raises \<open>UnicodeEncodeError\<close> at a surrogate
  (\<open>0xD800\<close> to \<open>0xDFFF\<close>). A number from \<open>0x110000\<close> on is not a code point and no
  Python string holds one; the model rejects it.
\<close>

type_synonym py_str = "nat list"

type_synonym byte = "8 word"

definition utf8_code_point :: "nat \<Rightarrow> error + byte list" where
  "utf8_code_point c =
     (if c < 0x80 then Inr [of_nat c]
      else if c < 0x800 then Inr [of_nat (0xC0 + c div 0x40), of_nat (0x80 + c mod 0x40)]
      else if c < 0x10000 then
        (if 0xD800 \<le> c \<and> c < 0xE000 then Inl UnicodeEncodeError
         else Inr [of_nat (0xE0 + c div 0x1000), of_nat (0x80 + c div 0x40 mod 0x40),
                   of_nat (0x80 + c mod 0x40)])
      else if c < 0x110000 then
        Inr [of_nat (0xF0 + c div 0x40000), of_nat (0x80 + c div 0x1000 mod 0x40),
             of_nat (0x80 + c div 0x40 mod 0x40), of_nat (0x80 + c mod 0x40)]
      else Inl UnicodeEncodeError)"

fun bytearray_utf8 :: "py_str \<Rightarrow> error + byte list" where
  "bytearray_utf8 [] = Inr []"
| "bytearray_utf8 (c # cs) =
     (case utf8_code_point c of
        Inl err \<Rightarrow> Inl err
      | Inr bs \<Rightarrow>
          (case bytearray_utf8 cs of
             Inl err \<Rightarrow> Inl err
           | Inr rest \<Rightarrow> Inr (bs @ rest)))"

text \<open>
  The arguments after the byte buffer are wrapped callbacks (function pointers) and, for
  GEXF, the flag \<open>validate_schema\<close>. The module \<open>backend\<close> is a partial map from attribute
  names to native functions. What an import does is logged: the encoding of the input
  and the native call, in the order they happen.
\<close>

datatype 'p import_arg = Fptr 'p | Flag bool

datatype 'p import_event =
    Encode_utf8 py_str
  | Import_call string "byte list" "'p import_arg list"

type_synonym 'p import_backend =
  "string \<rightharpoonup> (byte list \<Rightarrow> 'p import_arg list \<Rightarrow> error + handle)"

datatype edge_triple_list = JGraphTEdgeTripleList handle

definition import_edgelist ::
  "'p import_backend \<Rightarrow> string \<Rightarrow> bool \<Rightarrow> py_str \<Rightarrow> 'p import_arg list \<Rightarrow>
     (error + edge_triple_list) \<times> 'p import_event list" where
  "import_edgelist be name with_attrs filename_or_string args =
     (let alg_method_name =
            ''jgrapht_import_edgelist_'' @ (if with_attrs then ''attrs_'' else ''noattrs_'') @ name
      in
      case be alg_method_name of
        None \<Rightarrow> (Inl NotImplementedError, [])
      | Some alg_method \<Rightarrow>
          (case bytearray_utf8 filename_or_string of
             Inl err \<Rightarrow> (Inl err, [Encode_utf8 filename_or_string])
           | Inr filename_or_string_as_bytearray \<Rightarrow>
               (map_sum id JGraphTEdgeTripleList
                  (alg_method filename_or_string_as_bytearray args),
                [Encode_utf8 filename_or_string,
                 Import_call alg_method_name filename_or_string_as_bytearray args])))"

text \<open>
  The two callback wrappers of \<open>_internals/_ioutils.py\<close> are not among the sources; they
  are parameters. Each turns a Python callable (or \<open>None\<close>, for an attribute callback)
  into a function pointer.
\<close>

record ('cb, 'p) ioutils =
  create_wrapped_import_string_id_callback :: "'cb \<Rightarrow> 'p"
  create_wrapped_attribute_callback :: "'cb option \<Rightarrow> 'p"

definition read_edgelist_json ::
  "'p import_backend \<Rightarrow> ('cb, 'p) ioutils \<Rightarrow> py_str \<Rightarrow> 'cb \<Rightarrow> 'cb option \<Rightarrow> 'cb option \<Rightarrow>
     (error + edge_triple_list) \<times> 'p import_event list" where
  "read_edgelist_json be io filename import_id_cb vertex_attribute_cb edge_attribute_cb =
     (let import_id_f_ptr = create_wrapped_import_string_id_callback io import_id_cb in
      if vertex_attribute_cb = None \<and> edge_attribute_cb = None
      then import_edgelist be ''file_json'' False filename [Fptr import_id_f_ptr]
      else
        let vertex_attribute_f_ptr = create_wrapped_attribute_callback io vertex_attribute_cb;
            edge_attribute_f_ptr = create_wrapped_attribute_callback io edge_attribute_cb
        in import_edgelist be ''file_json'' True filename
             [Fptr import_id_f_ptr, Fptr vertex_attribute_f_ptr, Fptr edge_attribute_f_ptr])"

definition parse_edgelist_json ::
  "'p import_backend \<Rightarrow> ('cb, 'p) ioutils \<Rightarrow> py_str \<Rightarrow> 'cb \<Rightarrow> 'cb option \<Rightarrow> 'cb option \<Rightarrow>
     (error + edge_triple_list) \<times> 'p import_event list" where
  "parse_edgelist_json be io input_string import_id_cb vertex_attribute_cb edge_attribute_cb =
     (let import_id_f_ptr = create_wrapped_import_string_id_callback io import_id_cb in
      if vertex_attribute_cb = None \<and> edge_attribute_cb = None
      then import_edgelist be ''string_json'' False input_string [Fptr import_id_f_ptr]
      else
        let vertex_attribute_f_ptr = create_wrapped_attribute_callback io vertex_attribute_cb;
            edge_attribute_f_ptr = create_wrapped_attribute_callback io edge_attribute_cb
        in import_edgelist be ''string_json'' True input_string
             [Fptr import_id_f_ptr, Fptr vertex_attribute_f_ptr, Fptr edge_attribute_f_ptr])"

definition read_edgelist_gexf ::
  "'p import_backend \<Rightarrow> ('cb, 'p) ioutils \<Rightarrow> py_str \<Rightarrow> 'cb \<Rightarrow> bool \<Rightarrow> 'cb option \<Rightarrow>
     'cb option \<Rightarrow> (error + edge_triple_list) \<times> 'p import_event list" where
  "read_edgelist_gexf be io filename import_id_cb validate_schema vertex_attribute_cb
       edge_attribute_cb =
     (let import_id_f_ptr = create_wrapped_import_string_id_callback io import_id_cb in
      if vertex_attribute_cb = None \<and> edge_attribute_cb = None
      then import_edgelist be ''file_gexf'' False filename
             [Fptr import_id_f_ptr, Flag validate_schema]
      else
        let vertex_attribute_f_ptr = create_wrapped_attribute_callback io vertex_attribute_cb;
            edge_attribute_f_ptr = create_wrapped_attribute_callback io edge_attribute_cb
        in import_edgelist be ''file_gexf'' True filename
             [Fptr import_id_f_ptr, Flag validate_schema,
              Fptr vertex_attribute_f_ptr, Fptr edge_attribute_f_ptr])"

definition parse_edgelist_gexf ::
  "'p import_backend \<Rightarrow> ('cb, 'p) ioutils \<Rightarrow> py_str \<Rightarrow> 'cb \<Rightarrow> bool \<Rightarrow> 'cb option \<Rightarrow>
     'cb option \<Rightarrow> (error + edge_triple_list) \<times> 'p import_event list" where
  "parse_edgelist_gexf be io input_string import_id_cb validate_schema vertex_attribute_cb
       edge_attribute_cb =
     (let import_id_f_ptr = create_wrapped_import_string_id_callback io import_id_cb in
      if vertex_attribute_cb = None \<and> edge_attribute_cb = None
      then import_edgelist be ''string_gexf'' False input_string
             [Fptr import_id_f_ptr, Flag validate_schema]
      else
        let vertex_attribute_f_ptr = create_wrapped_attribute_callback io vertex_attribute_cb;
            edge_attribute_f_ptr = create_wrapped_attribute_callback io edge_attribute_cb
        in import_edgelist be ''string_gexf'' True input_string
             [Fptr import_id_f_ptr, Flag validate_schema,
              Fptr vertex_attribute_f_ptr, Fptr edge_attribute_f_ptr])"

section \<open>Concrete inputs\<close>

text \<open>
  A property graph with the vertices \<open>"a"\<close>, \<open>"b"\<close>, \<open>"c"\<close> (internal identifiers 0, 1, 2)
  and one edge \<open>"ab"\<close> (internal identifier 0) from \<open>"a"\<close> to \<open>"b"\<close>; \<open>"c"\<close> is isolated.
\<close>

definition demo_graph :: graph where
  "demo_graph =
     \<lparr>vertex_hash_to_id = [PyStr ''a'' \<mapsto> 0, PyStr ''b'' \<mapsto> 1, PyStr ''c'' \<mapsto> 2],
      vertex_id_to_hash = [0 \<mapsto> PyStr ''a'', 1 \<mapsto> PyStr ''b'', 2 \<mapsto> PyStr ''c''],
      edge_id_to_hash = [0 \<mapsto> PyStr ''ab'']\<rparr>"

text \<open>The same graph after vertex \<open>"a"\<close> was removed from it and from its dictionaries.\<close>

definition stale_graph :: graph where
  "stale_graph =
     \<lparr>vertex_hash_to_id = [PyStr ''b'' \<mapsto> 1, PyStr ''c'' \<mapsto> 2],
      vertex_id_to_hash = [1 \<mapsto> PyStr ''b'', 2 \<mapsto> PyStr ''c''],
      edge_id_to_hash = Map.empty\<rparr>"

text \<open>
  An engine for \<open>demo_graph\<close>: handle 3 is an all-pairs result, handle 7 the
  single-source result from vertex 0, handle 42 the path from 0 to 1 (weight 1, the
  edge 0). Vertex 2 is reached from nowhere.
\<close>

definition demo_backend :: "real backend" where
  "demo_backend =
     \<lparr>jgrapht_handles_get_graphpath =
        (\<lambda>h. if h = 42 then Inr (1, 0, 1, [0]) else Inl NativeEngineError),
      jgrapht_sp_singlesource_get_path_to_vertex =
        (\<lambda>h t. if h = 7 then (if t = 1 then Inr (Some 42) else Inr None)
                else Inl NativeEngineError),
      jgrapht_sp_allpairs_get_path_between_vertices =
        (\<lambda>h s t. if h = 3 then (if s = 0 \<and> t = 1 then Inr (Some 42) else Inr None)
                  else Inl NativeEngineError),
      jgrapht_sp_allpairs_get_singlesource_from_vertex =
        (\<lambda>h s. if h = 3 \<and> s = 0 then Inr 7 else Inl NativeEngineError)\<rparr>"

text \<open>An engine that rejects a negative size of a complete graph, as the engine does.\<close>

definition rejecting_engine :: generate_backend where
  "rejecting_engine c =
     (case c of
        Generate_complete h n \<Rightarrow> if n < 0 then Inl ValueError else Inr ()
      | _ \<Rightarrow> Inr ())"

text \<open>
  A backend module that has the four importers without attribute callbacks and none
  with them, and callback wrappers over numbered callbacks.
\<close>

definition demo_import_backend :: "nat import_backend" where
  "demo_import_backend =
     [''jgrapht_import_edgelist_noattrs_file_json'' \<mapsto> (\<lambda>b args. Inr 11),
      ''jgrapht_import_edgelist_noattrs_string_json'' \<mapsto> (\<lambda>b args. Inr 12),
      ''jgrapht_import_edgelist_noattrs_file_gexf'' \<mapsto> (\<lambda>b args. Inr 13),
      ''jgrapht_import_edgelist_noattrs_string_gexf'' \<mapsto> (\<lambda>b args. Inr 14)]"

definition demo_ioutils :: "(nat, nat) ioutils" where
  "demo_ioutils =
     \<lparr>create_wrapped_import_string_id_callback = (\<lambda>cb. cb),
      create_wrapped_attribute_callback = (\<lambda>cb. case cb of None \<Rightarrow> 0 | Some c \<Rightarrow> c)\<rparr>"

section \<open>The decode-and-cache step\<close>

lemma cache_hit: "gp_edges (path w) \<noteq> None \<Longrightarrow> cache be g w = (Inr (), w)"
  by (simp add: cache_def)

lemma read_field_hit:
  "gp_edges (path w) \<noteq> None \<Longrightarrow> read_field be g f w = (Inr (stored_value (path w) f), w)"
  by (cases f)
     (simp_all add: read_field_def weight_def start_vertex_def end_vertex_def edges_def
        cache_hit stored_value_def)

lemma read_fields_hit:
  "gp_edges (path w) \<noteq> None \<Longrightarrow>
   read_fields be reads w = (map (\<lambda>r. Inr (stored_value (path w) (fst r))) reads, w)"
  by (induction reads) (auto simp: read_field_hit)

lemma cache_miss:
  assumes "gp_edges (path w) = None"
    and "jgrapht_handles_get_graphpath be (gp_handle (path w)) = Inr (wt, s, t, eit)"
    and "vertex_id_to_hash g s = Some sv"
    and "vertex_id_to_hash g t = Some tv"
    and "edge_iterator_list g eit = Inr es"
  shows "cache be g w =
     (Inr (), \<lparr>path = \<lparr>gp_handle = gp_handle (path w), gp_weight = Some wt,
                        gp_start_vertex = Some sv, gp_end_vertex = Some tv,
                        gp_edges = Some es\<rparr>,
               calls = calls w @ [Handles_get_graphpath (gp_handle (path w))]\<rparr>)"
  using assms by (cases w, cases "path w") (simp add: cache_def Let_def)

lemma cache_Inr_edges: "cache be g w = (Inr u, w') \<Longrightarrow> gp_edges (path w') \<noteq> None"
  by (auto simp: cache_def Let_def split: if_splits sum.splits option.splits prod.splits)

lemma fetch_count_snoc:
  "fetch_count (cs @ [Handles_get_graphpath h]) = Suc (fetch_count cs)"
  by (simp add: fetch_count_def)

text \<open>
  Claim C2, as stated: whatever the path, reading its fields any number of times issues
  exactly one \<open>jgrapht_handles_get_graphpath\<close>. It fails when the decoding raises: the
  path from \<open>"a"\<close> to \<open>"b"\<close> is read after \<open>"a"\<close> was removed from the graph, so the
  lookup of the start vertex raises, \<open>_edges\<close> stays \<open>None\<close>, and the second read fetches
  again. Two reads, two native fetches.
\<close>

theorem decode_retried_after_failure_counterexample:
  "read_fields demo_backend [(Weight, stale_graph), (Weight, stale_graph)]
     \<lparr>path = new_graph_path 42, calls = []\<rparr> =
     ([Inl KeyError, Inl KeyError],
      \<lparr>path = \<lparr>gp_handle = 42, gp_weight = Some 1, gp_start_vertex = None,
               gp_end_vertex = None, gp_edges = None\<rparr>,
       calls = [Handles_get_graphpath 42, Handles_get_graphpath 42]\<rparr>)
   \<and> fetch_count
         (calls (snd (read_fields demo_backend [(Weight, stale_graph), (Weight, stale_graph)]
                        \<lparr>path = new_graph_path 42, calls = []\<rparr>))) = 2"
  by (simp add: read_field_def weight_def cache_def demo_backend_def stale_graph_def
        new_graph_path_def fetch_count_def)

text \<open>
  Claim C2, amended: for a path not decoded yet whose first decoding succeeds (the native
  fetch returns, both endpoints and every edge have a reverse entry in the graph as it
  is at the first read), any sequence of one or more reads of \<open>weight\<close>, \<open>start_vertex\<close>,
  \<open>end_vertex\<close> and \<open>edges\<close>, in any order, returns for each field the one decoded value
  every time, whatever happens to the graph after the first read, and the whole sequence
  issues exactly one \<open>jgrapht_handles_get_graphpath\<close>.
\<close>

theorem decode_once:
  assumes "gp_edges (path w) = None"
    and "jgrapht_handles_get_graphpath be (gp_handle (path w)) = Inr (wt, s, t, eit)"
    and "vertex_id_to_hash g s = Some sv"
    and "vertex_id_to_hash g t = Some tv"
    and "edge_iterator_list g eit = Inr es"
  shows "case read_fields be ((f, g) # reads) w of
           (rs, w') \<Rightarrow>
             rs = map (\<lambda>r. Inr (stored_value (path w') (fst r))) ((f, g) # reads)
             \<and> path w' = \<lparr>gp_handle = gp_handle (path w), gp_weight = Some wt,
                          gp_start_vertex = Some sv, gp_end_vertex = Some tv,
                          gp_edges = Some es\<rparr>
             \<and> calls w' = calls w @ [Handles_get_graphpath (gp_handle (path w))]
             \<and> fetch_count (calls w') = fetch_count (calls w) + 1"
proof -
  let ?p = "\<lparr>gp_handle = gp_handle (path w), gp_weight = Some wt,
                        gp_start_vertex = Some sv, gp_end_vertex = Some tv,
                        gp_edges = Some es\<rparr>"
  let ?w = "\<lparr>path = ?p, calls = calls w @ [Handles_get_graphpath (gp_handle (path w))]\<rparr>"
  have c: "cache be g w = (Inr (), ?w)" using assms by (rule cache_miss)
  have r: "read_field be g f w = (Inr (stored_value ?p f), ?w)"
    by (cases f)
       (simp_all add: read_field_def weight_def start_vertex_def end_vertex_def edges_def
          c stored_value_def)
  have "read_fields be ((f, g) # reads) w =
          (map (\<lambda>r. Inr (stored_value ?p (fst r))) ((f, g) # reads), ?w)"
    by (simp add: r read_fields_hit)
  then show ?thesis by (simp add: fetch_count_snoc)
qed

theorem decode_once_witness:
  "read_fields demo_backend
     [(Weight, demo_graph), (Edges, demo_graph), (Start_vertex, stale_graph),
      (Weight, stale_graph), (End_vertex, demo_graph), (Edges, stale_graph)]
     \<lparr>path = new_graph_path 42, calls = []\<rparr> =
   ([Inr (Weight_value (Some 1)), Inr (Edges_value (Some [PyStr ''ab''])),
     Inr (Vertex_value (Some (PyStr ''a''))), Inr (Weight_value (Some 1)),
     Inr (Vertex_value (Some (PyStr ''b''))), Inr (Edges_value (Some [PyStr ''ab'']))],
    \<lparr>path = \<lparr>gp_handle = 42, gp_weight = Some 1, gp_start_vertex = Some (PyStr ''a''),
             gp_end_vertex = Some (PyStr ''b''), gp_edges = Some [PyStr ''ab'']\<rparr>,
     calls = [Handles_get_graphpath 42]\<rparr>)"
proof -
  let ?w = "\<lparr>path = new_graph_path 42, calls = []\<rparr> :: real world"
  let ?reads = "[(Edges, demo_graph), (Start_vertex, stale_graph),
      (Weight, stale_graph), (End_vertex, demo_graph), (Edges, stale_graph)]"
  have h1: "gp_edges (path ?w) = None" by (simp add: new_graph_path_def)
  have h2: "jgrapht_handles_get_graphpath demo_backend (gp_handle (path ?w)) = Inr (1, 0, 1, [0])"
    by (simp add: demo_backend_def new_graph_path_def)
  have h3: "vertex_id_to_hash demo_graph 0 = Some (PyStr ''a'')" by (simp add: demo_graph_def)
  have h4: "vertex_id_to_hash demo_graph 1 = Some (PyStr ''b'')" by (simp add: demo_graph_def)
  have h5: "edge_iterator_list demo_graph [0] = Inr [PyStr ''ab'']" by (simp add: demo_graph_def)
  show ?thesis
    using decode_once [OF h1 h2 h3 h4 h5, of Weight ?reads]
    by (cases "read_fields demo_backend ((Weight, demo_graph) # ?reads) ?w")
       (simp add: stored_value_def new_graph_path_def)
qed

section \<open>Direct iteration\<close>

lemma drain_drop: "drain \<lparr>it_seq = xs, it_index = i\<rparr> = drop i xs"
proof (induction "length xs - i" arbitrary: i)
  case 0
  then show ?case by (subst drain.simps) (simp add: list_next_def)
next
  case (Suc n)
  then have "i < length xs" and "n = length xs - Suc i" by simp_all
  with Suc.hyps(1) [of "Suc i"] show ?case
    by (subst drain.simps) (simp add: list_next_def Cons_nth_drop_Suc)
qed

lemma drain_list_iter: "drain (list_iter xs) = xs"
  by (simp add: list_iter_def drain_drop)

text \<open>
  Claim C9: iterating directly over a path yields exactly the edges, in the same order,
  that the property \<open>edges\<close> returns, through the same decode-and-cache step: from any
  state, both raise the same error or give the same list, and both leave the same
  object and the same native calls behind.
\<close>

theorem iterate_path_eq_edges:
  "edges be g w = apfst (map_sum id Some) (iterate_path be g w)"
proof (cases "cache be g w")
  case (Pair r w')
  show ?thesis
  proof (cases r)
    case (Inl err)
    with Pair show ?thesis by (simp add: edges_def iterate_path_def path_iter_def)
  next
    case (Inr u)
    with Pair have "gp_edges (path w') \<noteq> None" by (auto dest: cache_Inr_edges)
    then obtain es where "gp_edges (path w') = Some es" by auto
    with Pair Inr show ?thesis
      by (simp add: edges_def iterate_path_def path_iter_def drain_list_iter)
  qed
qed

section \<open>Shortest-path results\<close>

lemma get_paths_from_keeps_internal_id:
  "allpairs_get_paths_from be g a v = (Inr s, cs) \<Longrightarrow>
   \<exists>k. vertex_pg_to_g g v = Inr k \<and> source_vertex s = PyInt k"
  by (auto simp: allpairs_get_paths_from_def source_vertex_def split: sum.splits)

text \<open>
  Claim C1 says that the \<open>source_vertex\<close> of the object returned by
  \<open>get_paths_from(source_vertex)\<close> is the application identifier that was passed, never
  the internal integer. The code does otherwise: asked for the paths from the vertex
  \<open>"a"\<close> (internal identifier 0), it returns an object whose \<open>source_vertex\<close> is the
  integer 0, while the path object for the path from that same vertex reports the start
  vertex \<open>"a"\<close>.
\<close>

theorem get_paths_from_source_vertex_is_internal_id:
  "map_sum id source_vertex
     (fst (allpairs_get_paths_from demo_backend demo_graph \<lparr>app_handle = 3\<rparr> (PyStr ''a'')))
     = Inr (PyInt 0)
   \<and> PyInt 0 \<noteq> PyStr ''a''
   \<and> fst (start_vertex demo_backend demo_graph \<lparr>path = new_graph_path 42, calls = []\<rparr>)
     = Inr (Some (PyStr ''a''))"
  by (simp add: allpairs_get_paths_from_def vertex_pg_to_g_def demo_graph_def
        demo_backend_def source_vertex_def start_vertex_def cache_def new_graph_path_def)

text \<open>
  Claim C4: \<open>get_path\<close> of a single-source result, and of an all-pairs result, returns
  \<open>None\<close> and raises nothing when the target is unreachable, and a path wrapper (not yet
  decoded) when it is reachable. The engine reports an unreachable target by returning no
  handle; the vertices are vertices of the graph.
\<close>

theorem get_path_unreachable_is_None:
  assumes "vertex_pg_to_g g t = Inr t'"
  shows "(jgrapht_sp_singlesource_get_path_to_vertex be (ssp_handle s) t' = Inr None \<longrightarrow>
            fst (singlesource_get_path be g s t) = Inr None)
       \<and> (jgrapht_sp_singlesource_get_path_to_vertex be (ssp_handle s) t' = Inr (Some h) \<longrightarrow>
            fst (singlesource_get_path be g s t) = Inr (Some (new_graph_path h)))
       \<and> (vertex_pg_to_g g u = Inr u' \<longrightarrow>
            (jgrapht_sp_allpairs_get_path_between_vertices be (app_handle a) u' t' = Inr None \<longrightarrow>
               fst (allpairs_get_path be g a u t) = Inr None)
          \<and> (jgrapht_sp_allpairs_get_path_between_vertices be (app_handle a) u' t' = Inr (Some h) \<longrightarrow>
               fst (allpairs_get_path be g a u t) = Inr (Some (new_graph_path h))))"
  using assms by (simp add: singlesource_get_path_def allpairs_get_path_def)

theorem get_path_unreachable_is_None_witness:
  "fst (singlesource_get_path demo_backend demo_graph
          \<lparr>ssp_handle = 7, ssp_source_vertex = PyStr ''a''\<rparr> (PyStr ''c'')) = Inr None
   \<and> fst (singlesource_get_path demo_backend demo_graph
          \<lparr>ssp_handle = 7, ssp_source_vertex = PyStr ''a''\<rparr> (PyStr ''b''))
       = Inr (Some (new_graph_path 42))
   \<and> fst (allpairs_get_path demo_backend demo_graph \<lparr>app_handle = 3\<rparr> (PyStr ''a'') (PyStr ''c''))
       = Inr None
   \<and> fst (allpairs_get_path demo_backend demo_graph \<lparr>app_handle = 3\<rparr> (PyStr ''a'') (PyStr ''b''))
       = Inr (Some (new_graph_path 42))"
proof -
  have a: "vertex_pg_to_g demo_graph (PyStr ''a'') = Inr 0"
    by (simp add: vertex_pg_to_g_def demo_graph_def)
  have b: "vertex_pg_to_g demo_graph (PyStr ''b'') = Inr 1"
    by (simp add: vertex_pg_to_g_def demo_graph_def)
  have c: "vertex_pg_to_g demo_graph (PyStr ''c'') = Inr 2"
    by (simp add: vertex_pg_to_g_def demo_graph_def)
  have s_c: "jgrapht_sp_singlesource_get_path_to_vertex demo_backend 7 2 = Inr None"
    and s_b: "jgrapht_sp_singlesource_get_path_to_vertex demo_backend 7 1 = Inr (Some 42)"
    and a_c: "jgrapht_sp_allpairs_get_path_between_vertices demo_backend 3 0 2 = Inr None"
    and a_b: "jgrapht_sp_allpairs_get_path_between_vertices demo_backend 3 0 1 = Inr (Some 42)"
    by (simp_all add: demo_backend_def)
  show ?thesis
    using get_path_unreachable_is_None [OF c, of demo_backend
            "\<lparr>ssp_handle = 7, ssp_source_vertex = PyStr ''a''\<rparr>" 42 "PyStr ''a''" 0
            "\<lparr>app_handle = 3\<rparr>"]
          get_path_unreachable_is_None [OF b, of demo_backend
            "\<lparr>ssp_handle = 7, ssp_source_vertex = PyStr ''a''\<rparr>" 42 "PyStr ''a''" 0
            "\<lparr>app_handle = 3\<rparr>"]
          a s_c s_b a_c a_b
    by simp
qed

section \<open>Generators issue the native call unchecked\<close>

text \<open>
  Claim C3, as stated: a generator called with a numeric parameter out of its domain
  fails before any native call is made. It does not: \<open>complete_graph\<close> with \<open>n = -1\<close>
  makes the native call with \<open>-1\<close>, and the error is the one the engine raises.
\<close>

theorem complete_graph_negative_counterexample:
  "complete_graph rejecting_engine 5 (- 1) = (Inl ValueError, [Generate_complete 5 (- 1)])"
  by (simp add: complete_graph_def rejecting_engine_def)

text \<open>
  Claim C3, amended: no generator checks its parameters on the host side. Every
  generator call issues exactly one native call, with the parameters as given (and the
  seed, given or defaulted), whatever their values; the call's outcome is the outcome of
  that native call, so an error for a parameter out of its domain can only be raised by
  the engine, after the call was made.
\<close>

theorem generators_call_native_unchecked:
  "barabasi_albert_graph be now h m0 m n seed =
     (be (Generate_barabasi_albert h m0 m n (case seed of None \<Rightarrow> py_int now | Some s \<Rightarrow> s)),
      [Generate_barabasi_albert h m0 m n (case seed of None \<Rightarrow> py_int now | Some s \<Rightarrow> s)])
   \<and> barabasi_albert_forest be now h t n seed =
     (be (Generate_barabasi_albert_forest h t n
            (case seed of None \<Rightarrow> py_int now | Some s \<Rightarrow> s)),
      [Generate_barabasi_albert_forest h t n
            (case seed of None \<Rightarrow> py_int now | Some s \<Rightarrow> s)])
   \<and> complete_graph be h n = (be (Generate_complete h n), [Generate_complete h n])
   \<and> complete_bipartite_graph be h a b =
     (be (Generate_bipartite_complete h a b), [Generate_bipartite_complete h a b])
   \<and> empty_graph be h n = (be (Generate_empty h n), [Generate_empty h n])
   \<and> gnm_random_graph be now h n m loops multiple_edges seed =
     (be (Generate_gnm_random h n m loops multiple_edges
            (case seed of None \<Rightarrow> py_int now | Some s \<Rightarrow> s)),
      [Generate_gnm_random h n m loops multiple_edges
            (case seed of None \<Rightarrow> py_int now | Some s \<Rightarrow> s)])
   \<and> gnp_random_graph be now h n p loops seed =
     (be (Generate_gnp_random h n p loops (case seed of None \<Rightarrow> py_int now | Some s \<Rightarrow> s)),
      [Generate_gnp_random h n p loops (case seed of None \<Rightarrow> py_int now | Some s \<Rightarrow> s)])
   \<and> ring_graph be h n = (be (Generate_ring h n), [Generate_ring h n])
   \<and> scalefree_graph be now h n seed =
     (be (Generate_scalefree h n (case seed of None \<Rightarrow> py_int now | Some s \<Rightarrow> s)),
      [Generate_scalefree h n (case seed of None \<Rightarrow> py_int now | Some s \<Rightarrow> s)])
   \<and> watts_strogatz_graph be now h n k p add_instead_of_rewire seed =
     (be (Generate_watts_strogatz h n k p add_instead_of_rewire
            (case seed of None \<Rightarrow> py_int now | Some s \<Rightarrow> s)),
      [Generate_watts_strogatz h n k p add_instead_of_rewire
            (case seed of None \<Rightarrow> py_int now | Some s \<Rightarrow> s)])
   \<and> kleinberg_smallworld_graph be now h n kp q r seed =
     (be (Generate_kleinberg_smallworld h n kp q r
            (case seed of None \<Rightarrow> py_int now | Some s \<Rightarrow> s)),
      [Generate_kleinberg_smallworld h n kp q r
            (case seed of None \<Rightarrow> py_int now | Some s \<Rightarrow> s)])"
  by (simp add: barabasi_albert_graph_def barabasi_albert_forest_def complete_graph_def
        complete_bipartite_graph_def empty_graph_def gnm_random_graph_def gnp_random_graph_def
        ring_graph_def scalefree_graph_def watts_strogatz_graph_def
        kleinberg_smallworld_graph_def Let_def)

section \<open>The seed of a generator\<close>

lemma py_int_truncates:
  "\<bar>real_of_int (py_int x)\<bar> \<le> \<bar>x\<bar> \<and> \<bar>x - real_of_int (py_int x)\<bar> < 1"
  unfolding py_int_def by (auto; linarith)

text \<open>
  Claim C7: each of the seven seeded generators passes to its native call exactly the
  seed the caller supplied, and, when the seed is \<open>None\<close>, the clock reading truncated
  to an integer (the integer part of the reading: no larger in magnitude, and less than
  one away from it).
\<close>

theorem generators_seed:
  "snd (barabasi_albert_graph be now h m0 m n (Some seed)) = [Generate_barabasi_albert h m0 m n seed]
   \<and> snd (barabasi_albert_graph be now h m0 m n None) =
       [Generate_barabasi_albert h m0 m n (py_int now)]
   \<and> snd (barabasi_albert_forest be now h t n (Some seed)) =
       [Generate_barabasi_albert_forest h t n seed]
   \<and> snd (barabasi_albert_forest be now h t n None) =
       [Generate_barabasi_albert_forest h t n (py_int now)]
   \<and> snd (gnm_random_graph be now h n m loops multiple_edges (Some seed)) =
       [Generate_gnm_random h n m loops multiple_edges seed]
   \<and> snd (gnm_random_graph be now h n m loops multiple_edges None) =
       [Generate_gnm_random h n m loops multiple_edges (py_int now)]
   \<and> snd (gnp_random_graph be now h n p loops (Some seed)) =
       [Generate_gnp_random h n p loops seed]
   \<and> snd (gnp_random_graph be now h n p loops None) =
       [Generate_gnp_random h n p loops (py_int now)]
   \<and> snd (scalefree_graph be now h n (Some seed)) = [Generate_scalefree h n seed]
   \<and> snd (scalefree_graph be now h n None) = [Generate_scalefree h n (py_int now)]
   \<and> snd (watts_strogatz_graph be now h n k p add_instead_of_rewire (Some seed)) =
       [Generate_watts_strogatz h n k p add_instead_of_rewire seed]
   \<and> snd (watts_strogatz_graph be now h n k p add_instead_of_rewire None) =
       [Generate_watts_strogatz h n k p add_instead_of_rewire (py_int now)]
   \<and> snd (kleinberg_smallworld_graph be now h n kp q r (Some seed)) =
       [Generate_kleinberg_smallworld h n kp q r seed]
   \<and> snd (kleinberg_smallworld_graph be now h n kp q r None) =
       [Generate_kleinberg_smallworld h n kp q r (py_int now)]
   \<and> \<bar>real_of_int (py_int now)\<bar> \<le> \<bar>now\<bar> \<and> \<bar>now - real_of_int (py_int now)\<bar> < 1"
  using py_int_truncates [of now]
  by (simp add: barabasi_albert_graph_def barabasi_albert_forest_def gnm_random_graph_def
        gnp_random_graph_def scalefree_graph_def watts_strogatz_graph_def
        kleinberg_smallworld_graph_def Let_def)

section \<open>Importers\<close>

lemma import_edgelist_call:
  "Import_call n b a \<in> set (snd (import_edgelist be name wa s args)) \<Longrightarrow>
   bytearray_utf8 s = Inr b
   \<and> snd (import_edgelist be name wa s args) = [Encode_utf8 s, Import_call n b a]"
  by (cases wa) (auto simp: import_edgelist_def Let_def split: option.splits sum.splits)

text \<open>
  Claim C8: in every import or parse of an edge list (JSON or GEXF, from a file name or
  from a string), the native function receives the UTF-8 encoding of the file name or
  input string as a byte buffer, produced by the host before the call: a native call
  in the log of an importer carries exactly those bytes and directly follows the
  encoding step.
\<close>

theorem importers_pass_utf8_bytes:
  "(Import_call n b a \<in> set (snd (read_edgelist_json be io filename id_cb v_cb e_cb)) \<longrightarrow>
      bytearray_utf8 filename = Inr b
      \<and> snd (read_edgelist_json be io filename id_cb v_cb e_cb)
          = [Encode_utf8 filename, Import_call n b a])
   \<and> (Import_call n b a \<in> set (snd (parse_edgelist_json be io input_string id_cb v_cb e_cb)) \<longrightarrow>
      bytearray_utf8 input_string = Inr b
      \<and> snd (parse_edgelist_json be io input_string id_cb v_cb e_cb)
          = [Encode_utf8 input_string, Import_call n b a])
   \<and> (Import_call n b a \<in> set (snd (read_edgelist_gexf be io filename id_cb vs v_cb e_cb)) \<longrightarrow>
      bytearray_utf8 filename = Inr b
      \<and> snd (read_edgelist_gexf be io filename id_cb vs v_cb e_cb)
          = [Encode_utf8 filename, Import_call n b a])
   \<and> (Import_call n b a \<in> set (snd (parse_edgelist_gexf be io input_string id_cb vs v_cb e_cb)) \<longrightarrow>
      bytearray_utf8 input_string = Inr b
      \<and> snd (parse_edgelist_gexf be io input_string id_cb vs v_cb e_cb)
          = [Encode_utf8 input_string, Import_call n b a])"
  unfolding read_edgelist_json_def parse_edgelist_json_def read_edgelist_gexf_def
    parse_edgelist_gexf_def Let_def
  by (auto dest: import_edgelist_call)

theorem importers_pass_utf8_bytes_witness:
  "snd (read_edgelist_json demo_import_backend demo_ioutils [0x61, 0xE9, 0x20AC, 0x1F600] 1 None None)
     = [Encode_utf8 [0x61, 0xE9, 0x20AC, 0x1F600],
        Import_call ''jgrapht_import_edgelist_noattrs_file_json''
          [0x61, 0xC3, 0xA9, 0xE2, 0x82, 0xAC, 0xF0, 0x9F, 0x98, 0x80] [Fptr 1]]
   \<and> snd (parse_edgelist_json demo_import_backend demo_ioutils [0x7B, 0x7D] 1 None None)
     = [Encode_utf8 [0x7B, 0x7D],
        Import_call ''jgrapht_import_edgelist_noattrs_string_json'' [0x7B, 0x7D] [Fptr 1]]
   \<and> snd (read_edgelist_gexf demo_import_backend demo_ioutils [0xE9] 1 True None None)
     = [Encode_utf8 [0xE9],
        Import_call ''jgrapht_import_edgelist_noattrs_file_gexf'' [0xC3, 0xA9]
          [Fptr 1, Flag True]]
   \<and> snd (parse_edgelist_gexf demo_import_backend demo_ioutils [0x20AC] 1 False None None)
     = [Encode_utf8 [0x20AC],
        Import_call ''jgrapht_import_edgelist_noattrs_string_gexf'' [0xE2, 0x82, 0xAC]
          [Fptr 1, Flag False]]"
proof -
  have rj: "Import_call ''jgrapht_import_edgelist_noattrs_file_json''
              [0x61, 0xC3, 0xA9, 0xE2, 0x82, 0xAC, 0xF0, 0x9F, 0x98, 0x80] [Fptr 1]
            \<in> set (snd (read_edgelist_json demo_import_backend demo_ioutils
                           [0x61, 0xE9, 0x20AC, 0x1F600] 1 None None))"
    by (simp add: read_edgelist_json_def import_edgelist_def demo_import_backend_def
          demo_ioutils_def utf8_code_point_def)
  have pj: "Import_call ''jgrapht_import_edgelist_noattrs_string_json'' [0x7B, 0x7D] [Fptr 1]
            \<in> set (snd (parse_edgelist_json demo_import_backend demo_ioutils
                           [0x7B, 0x7D] 1 None None))"
    by (simp add: parse_edgelist_json_def import_edgelist_def demo_import_backend_def
          demo_ioutils_def utf8_code_point_def)
  have rg: "Import_call ''jgrapht_import_edgelist_noattrs_file_gexf'' [0xC3, 0xA9]
              [Fptr 1, Flag True]
            \<in> set (snd (read_edgelist_gexf demo_import_backend demo_ioutils
                           [0xE9] 1 True None None))"
    by (simp add: read_edgelist_gexf_def import_edgelist_def demo_import_backend_def
          demo_ioutils_def utf8_code_point_def)
  have pg: "Import_call ''jgrapht_import_edgelist_noattrs_string_gexf'' [0xE2, 0x82, 0xAC]
              [Fptr 1, Flag False]
            \<in> set (snd (parse_edgelist_gexf demo_import_backend demo_ioutils
                           [0x20AC] 1 False None None))"
    by (simp add: parse_edgelist_gexf_def import_edgelist_def demo_import_backend_def
          demo_ioutils_def utf8_code_point_def)
  from importers_pass_utf8_bytes
         [of "''jgrapht_import_edgelist_noattrs_file_json''"
             "[0x61, 0xC3, 0xA9, 0xE2, 0x82, 0xAC, 0xF0, 0x9F, 0x98, 0x80]" "[Fptr 1]"
             demo_import_backend demo_ioutils "[0x61, 0xE9, 0x20AC, 0x1F600]" 1 None None]
       rj
  have c1: "snd (read_edgelist_json demo_import_backend demo_ioutils
                   [0x61, 0xE9, 0x20AC, 0x1F600] 1 None None)
     = [Encode_utf8 [0x61, 0xE9, 0x20AC, 0x1F600],
        Import_call ''jgrapht_import_edgelist_noattrs_file_json''
          [0x61, 0xC3, 0xA9, 0xE2, 0x82, 0xAC, 0xF0, 0x9F, 0x98, 0x80] [Fptr 1]]"
    by blast
  from importers_pass_utf8_bytes
         [of "''jgrapht_import_edgelist_noattrs_string_json''" "[0x7B, 0x7D]" "[Fptr 1]"
             demo_import_backend demo_ioutils _ 1 None None "[0x7B, 0x7D]"]
       pj
  have c2: "snd (parse_edgelist_json demo_import_backend demo_ioutils [0x7B, 0x7D] 1 None None)
     = [Encode_utf8 [0x7B, 0x7D],
        Import_call ''jgrapht_import_edgelist_noattrs_string_json'' [0x7B, 0x7D] [Fptr 1]]"
    by blast
  from importers_pass_utf8_bytes
         [of "''jgrapht_import_edgelist_noattrs_file_gexf''" "[0xC3, 0xA9]" "[Fptr 1, Flag True]"
             demo_import_backend demo_ioutils "[0xE9]" 1 None None _ True]
       rg
  have c3: "snd (read_edgelist_gexf demo_import_backend demo_ioutils [0xE9] 1 True None None)
     = [Encode_utf8 [0xE9],
        Import_call ''jgrapht_import_edgelist_noattrs_file_gexf'' [0xC3, 0xA9]
          [Fptr 1, Flag True]]"
    by blast
  from importers_pass_utf8_bytes
         [of "''jgrapht_import_edgelist_noattrs_string_gexf''" "[0xE2, 0x82, 0xAC]"
             "[Fptr 1, Flag False]"
             demo_import_backend demo_ioutils _ 1 None None "[0x20AC]" False]
       pg
  have c4: "snd (parse_edgelist_gexf demo_import_backend demo_ioutils [0x20AC] 1 False None None)
     = [Encode_utf8 [0x20AC],
        Import_call ''jgrapht_import_edgelist_noattrs_string_gexf'' [0xE2, 0x82, 0xAC]
          [Fptr 1, Flag False]]"
    by blast
  from c1 c2 c3 c4 show ?thesis by blast
qed

text \<open>
  Claim C10: when the backend has no function for the requested format,
  \<open>_import_edgelist\<close> raises \<open>NotImplementedError\<close>, and nothing else has happened: no
  encoding of the input and no native call. (So even an input that cannot be encoded
  gives \<open>NotImplementedError\<close>.)
\<close>

theorem import_edgelist_not_implemented:
  assumes "be (''jgrapht_import_edgelist_'' @ (if with_attrs then ''attrs_'' else ''noattrs_'')
                 @ name) = None"
  shows "import_edgelist be name with_attrs filename_or_string args
           = (Inl NotImplementedError, [])"
  using assms by (simp add: import_edgelist_def)

theorem import_edgelist_not_implemented_witness:
  "import_edgelist demo_import_backend ''file_csv'' False [0x61, 0xD800] [Fptr 1]
     = (Inl NotImplementedError, [])
   \<and> bytearray_utf8 [0x61, 0xD800] = Inl UnicodeEncodeError
   \<and> read_edgelist_json demo_import_backend demo_ioutils [0x61] 1 (Some 2) None
     = (Inl NotImplementedError, [])"
proof -
  have h: "demo_import_backend
             (''jgrapht_import_edgelist_'' @ (if False then ''attrs_'' else ''noattrs_'')
                @ ''file_csv'') = None"
    by (simp add: demo_import_backend_def)
  have h': "demo_import_backend
             (''jgrapht_import_edgelist_'' @ (if True then ''attrs_'' else ''noattrs_'')
                @ ''file_json'') = None"
    by (simp add: demo_import_backend_def)
  show ?thesis
    using import_edgelist_not_implemented
            [of demo_import_backend False "''file_csv''" "[0x61, 0xD800]" "[Fptr 1]", OF h]
      import_edgelist_not_implemented
            [of demo_import_backend True "''file_json''" "[0x61]" "[Fptr 1, Fptr 2, Fptr 0]",
             OF h']
    by (simp add: utf8_code_point_def read_edgelist_json_def demo_ioutils_def)
qed

end
